theory Spec2Isabelle
  imports Complex_Main
begin

section \<open>JavaScript values\<close>

text \<open>
  The game is written in JavaScript. A JavaScript number is modelled as a \<^typ>\<open>real\<close>:
  the arithmetic below is the exact arithmetic the source's formulas denote, not the
  rounding of IEEE doubles. A value that may fail to be a number (\<^verbatim>\<open>undefined\<close>, a
  missing option, \<^verbatim>\<open>NaN\<close>) is a \<^typ>\<open>real option\<close>, \<^term>\<open>None\<close> standing for
  the non-number.

  \<^verbatim>\<open>Math.round\<close> rounds to the nearest integer, halves upwards; \<^verbatim>\<open>Math.floor\<close>
  rounds downwards.
\<close>

definition Math_round :: "real \<Rightarrow> real" where
  "Math_round v = of_int \<lfloor>v + 1 / 2\<rfloor>"

definition Math_floor :: "real \<Rightarrow> real" where
  "Math_floor v = of_int \<lfloor>v\<rfloor>"

text \<open>
  \<^verbatim>\<open>v || d\<close> on a number: \<^verbatim>\<open>undefined\<close>, \<^verbatim>\<open>NaN\<close> and \<^verbatim>\<open>0\<close> are falsy, so the
  default \<open>d\<close> replaces them; every other number is kept.
\<close>

definition js_or :: "real option \<Rightarrow> real \<Rightarrow> real" where
  "js_or v d = (case v of None \<Rightarrow> d | Some n \<Rightarrow> if n = 0 then d else n)"

text \<open>\<^verbatim>\<open>b || false\<close> on an optional flag.\<close>

definition js_or_false :: "bool option \<Rightarrow> bool" where
  "js_or_false b = (case b of None \<Rightarrow> False | Some f \<Rightarrow> f)"

section \<open>GameManager: the economy\<close>

text \<open>
  \<^verbatim>\<open>GameManager\<close> is a singleton holding the balances. \<^verbatim>\<open>difficulty\<close> is \<^verbatim>\<open>null\<close>
  until one is selected.
\<close>

datatype difficulty = normal | hard | insane

text \<open>
  The three troop categories. In the source a category is a string; the scene spawns
  troops of these three only.
\<close>

datatype category = Light | Heavy | Ranged

record GameManager =
  difficulty :: "difficulty option"
  currentRound :: nat
  gold :: real
  xp :: real

text \<open>The constructor (and \<^verbatim>\<open>resetGame\<close>): 100 gold, no XP, round 1.\<close>

definition GameManager_new :: GameManager where
  "GameManager_new = \<lparr>difficulty = None, currentRound = 1, gold = 100, xp = 0\<rparr>"

record difficulty_params =
  enemyStrength :: real
  resourceMultiplier :: real

definition getDifficultyParameters :: "GameManager \<Rightarrow> difficulty_params" where
  "getDifficultyParameters g =
     (case difficulty g of
        Some hard \<Rightarrow> \<lparr>enemyStrength = 3 / 2, resourceMultiplier = 8 / 10\<rparr>
      | Some insane \<Rightarrow> \<lparr>enemyStrength = 2, resourceMultiplier = 6 / 10\<rparr>
      | _ \<Rightarrow> \<lparr>enemyStrength = 1, resourceMultiplier = 1\<rparr>)"

text \<open>
  \<^verbatim>\<open>addGold(amount, source)\<close>: passive income is scaled by the difficulty's resource
  multiplier and floored, any other source is added as it is. There is no check on the
  sign of \<open>amount\<close>.
\<close>

definition addGold :: "real \<Rightarrow> string \<Rightarrow> GameManager \<Rightarrow> GameManager" where
  "addGold amount source g =
     (let adjustedAmount =
            (if source = ''passive''
             then Math_floor (amount * resourceMultiplier (getDifficultyParameters g))
             else amount)
      in g\<lparr>gold := gold g + adjustedAmount\<rparr>)"

text \<open>\<^verbatim>\<open>spendGold(amount, reason)\<close>: check, then deduct; the flag is the returned boolean.\<close>

definition spendGold :: "real \<Rightarrow> GameManager \<Rightarrow> GameManager \<times> bool" where
  "spendGold amount g =
     (if gold g \<ge> amount then (g\<lparr>gold := gold g - amount\<rparr>, True) else (g, False))"

definition addXP :: "real \<Rightarrow> GameManager \<Rightarrow> GameManager" where
  "addXP amount g = g\<lparr>xp := xp g + amount\<rparr>"

text \<open>The tables of \<^verbatim>\<open>economyConfig\<close> that the kill reward reads.\<close>

fun unitCosts :: "category \<Rightarrow> real" where
  "unitCosts Light = 20"
| "unitCosts Ranged = 35"
| "unitCosts Heavy = 50"

fun xpRewards_troopKill :: "category \<Rightarrow> real" where
  "xpRewards_troopKill Light = 10"
| "xpRewards_troopKill Ranged = 15"
| "xpRewards_troopKill Heavy = 20"

definition xpRewards_baseDestroy :: real where
  "xpRewards_baseDestroy = 100"

definition killRewards_basePercentage :: real where
  "killRewards_basePercentage = 1 / 2"

definition calculateKillReward :: "GameManager \<Rightarrow> category \<Rightarrow> real" where
  "calculateKillReward g unitType =
     (let unitCost = js_or (Some (unitCosts unitType)) 0;
          difficultyBonus = 1 + (1 - resourceMultiplier (getDifficultyParameters g));
          reward = Math_floor (unitCost * killRewards_basePercentage * difficultyBonus)
      in max reward 1)"

text \<open>
  A run of calls on the ledger, in the order they are made. A spend's boolean result is
  dropped here: the run only follows the balance.
\<close>

datatype gold_call = AddGold real string | SpendGold real

fun gold_call_step :: "GameManager \<Rightarrow> gold_call \<Rightarrow> GameManager" where
  "gold_call_step g (AddGold amount source) = addGold amount source g"
| "gold_call_step g (SpendGold amount) = fst (spendGold amount g)"

fun gold_calls :: "GameManager \<Rightarrow> gold_call list \<Rightarrow> GameManager" where
  "gold_calls g [] = g"
| "gold_calls g (c # cs) = gold_calls (gold_call_step g c) cs"

text \<open>The amount a call adds to the balance is not negative (a spend adds nothing).\<close>

fun adds_no_debt :: "gold_call \<Rightarrow> bool" where
  "adds_no_debt (AddGold amount source) = (0 \<le> amount)"
| "adds_no_debt (SpendGold amount) = True"

section \<open>The scene\<close>

text \<open>
  A game object on screen: its position and whether it is still active (a destroyed
  sprite is inactive).
\<close>

record sprite =
  sprite_x :: real
  sprite_y :: real
  sprite_active :: bool

text \<open>
  The rectangle an \<^verbatim>\<open>Arrow\<close> flies as. \<^verbatim>\<open>Arrow\<close>'s constructor stores \<^verbatim>\<open>damage\<close> and
  \<^verbatim>\<open>isMaxPower\<close> on it; it keeps \<^verbatim>\<open>creationTime\<close> on the \<^verbatim>\<open>Arrow\<close> itself, so the
  sprite's own \<^verbatim>\<open>creationTime\<close> property stays \<^verbatim>\<open>undefined\<close> unless somebody else
  sets it. \<^verbatim>\<open>body_stopped\<close> records \<^verbatim>\<open>body.setVelocity(0, 0)\<close>; the velocity itself
  (heading angle, cosine and sine) is not modelled.
\<close>

record arrow_sprite = sprite +
  sprite_damage :: real
  sprite_isMaxPower :: bool
  sprite_creationTime :: "real option"
  body_allowGravity :: bool
  body_stopped :: bool

text \<open>
  The part of \<^verbatim>\<open>GameScene\<close> that the entities read and write. The three counters are
  not fields of the source: each counts the calls of the scene method of that name, so
  that a callback that fires is visible in the state.
\<close>

record GameScene =
  gameActive :: bool
  arrows :: "arrow_sprite list"
  worldBounds_width :: real
  worldBounds_height :: real
  gameManager :: GameManager
  showMaxPowerText_calls :: nat
  onPlayerBaseDestroyed_calls :: nat
  onEnemyBaseDestroyed_calls :: nat

text \<open>
  \<^verbatim>\<open>addArrowToScene(arrow)\<close>: an active sprite joins the tracked list. The list holds
  the sprite as it is at that moment; later changes that an \<^verbatim>\<open>Arrow\<close> makes to its
  sprite are made to the arrow's own copy.
\<close>

definition addArrowToScene :: "arrow_sprite \<Rightarrow> GameScene \<Rightarrow> GameScene" where
  "addArrowToScene arrow sc =
     (if sprite_active arrow then sc\<lparr>arrows := arrows sc @ [arrow]\<rparr> else sc)"

definition showMaxPowerText :: "GameScene \<Rightarrow> GameScene" where
  "showMaxPowerText sc = sc\<lparr>showMaxPowerText_calls := Suc (showMaxPowerText_calls sc)\<rparr>"

text \<open>
  The scene's handlers for a destroyed base. The enemy base's handler credits the
  base-destroy XP and ends the round; it has no guard of its own.
\<close>

definition onPlayerBaseDestroyed :: "GameScene \<Rightarrow> GameScene" where
  "onPlayerBaseDestroyed sc =
     sc\<lparr>gameActive := False,
        onPlayerBaseDestroyed_calls := Suc (onPlayerBaseDestroyed_calls sc)\<rparr>"

definition onEnemyBaseDestroyed :: "GameScene \<Rightarrow> GameScene" where
  "onEnemyBaseDestroyed sc =
     sc\<lparr>gameManager := addXP xpRewards_baseDestroy (gameManager sc),
        gameActive := False,
        onEnemyBaseDestroyed_calls := Suc (onEnemyBaseDestroyed_calls sc)\<rparr>"

text \<open>
  \<^verbatim>\<open>cleanupArrows\<close>, run from the scene's \<^verbatim>\<open>update\<close> on every tick. The callback of
  its \<^verbatim>\<open>filter\<close> answers whether the sprite stays in the list, and destroys the sprite
  it drops for being out of bounds or too old. \<open>now\<close> is \<^verbatim>\<open>Date.now()\<close>. The age is
  computed from the sprite's \<^verbatim>\<open>creationTime\<close>: when that is \<^verbatim>\<open>undefined\<close> the
  difference is \<^verbatim>\<open>NaN\<close>, and \<^verbatim>\<open>NaN > 10000\<close> is false.
\<close>

definition cleanup_margin :: real where
  "cleanup_margin = 50"

definition outOfBounds :: "GameScene \<Rightarrow> arrow_sprite \<Rightarrow> bool" where
  "outOfBounds sc arrow \<longleftrightarrow>
     sprite_x arrow < - cleanup_margin \<or>
     sprite_y arrow < - cleanup_margin \<or>
     sprite_x arrow > worldBounds_width sc + cleanup_margin \<or>
     sprite_y arrow > worldBounds_height sc + cleanup_margin"

definition sprite_destroy :: "arrow_sprite \<Rightarrow> arrow_sprite" where
  "sprite_destroy arrow = arrow\<lparr>sprite_active := False\<rparr>"

definition cleanup_filter :: "real \<Rightarrow> GameScene \<Rightarrow> arrow_sprite \<Rightarrow> arrow_sprite \<times> bool" where
  "cleanup_filter now sc arrow =
     (if \<not> sprite_active arrow then (arrow, False)
      else if outOfBounds sc arrow then (sprite_destroy arrow, False)
      else (case sprite_creationTime arrow of
              None \<Rightarrow> (arrow, True)
            | Some created \<Rightarrow>
                if now - created > 10000 then (sprite_destroy arrow, False)
                else (arrow, True)))"


section \<open>Arrow: the hero's projectile\<close>

text \<open>
  The options of an \<^verbatim>\<open>Arrow\<close> after its constructor has merged the defaults with what
  it was given. Colour, size and heading angle are presentation and left out.
\<close>

record arrow_options =
  opt_speed :: real
  opt_gravity :: real
  opt_lifetime :: real
  opt_speedMultiplier :: real
  opt_isMaxPower :: bool
  opt_baseDamage :: real
  opt_powerLevel :: real
  opt_damageMultiplier :: real

definition Arrow_defaults :: arrow_options where
  "Arrow_defaults =
     \<lparr>opt_speed = 900, opt_gravity = 300, opt_lifetime = 5000, opt_speedMultiplier = 1,
      opt_isMaxPower = False, opt_baseDamage = 10, opt_powerLevel = 100,
      opt_damageMultiplier = 1\<rparr>"

text \<open>
  \<^verbatim>\<open>Arrow.calculateDamage\<close>: base damage, scaled down below half power, times 1.4 for
  a max-power shot, times the upgrade multiplier, rounded.
\<close>

definition Arrow_calculateDamage :: "arrow_options \<Rightarrow> real" where
  "Arrow_calculateDamage opts =
     (let dmg = opt_baseDamage opts;
          level = opt_powerLevel opts;
          powerScaling = (if level < 50 then level / 50 else 1);
          dmg = dmg * powerScaling;
          dmg = (if opt_isMaxPower opts then dmg * (14 / 10) else dmg);
          dmg = dmg * opt_damageMultiplier opts
      in Math_round dmg)"

text \<open>
  An \<^verbatim>\<open>Arrow\<close>. \<^verbatim>\<open>destroy_delay\<close> is the delay of the timer that \<^verbatim>\<open>setupCollisions\<close>
  registers with \<^verbatim>\<open>scene.time.delayedCall(this.options.lifetime, this.destroy)\<close>.
\<close>

record Arrow =
  options :: arrow_options
  damage :: real
  hasHit :: bool
  creationTime :: real
  destroy_delay :: real
  arrow_sprite :: arrow_sprite

text \<open>
  The constructor, given the merged options: the damage is computed once, the sprite is
  created active at \<open>(x, y)\<close> with gravity on, and is handed to the scene's
  \<^verbatim>\<open>addArrowToScene\<close>. \<open>now\<close> is \<^verbatim>\<open>Date.now()\<close>.
\<close>

definition Arrow_new :: "GameScene \<Rightarrow> real \<Rightarrow> real \<Rightarrow> arrow_options \<Rightarrow> real \<Rightarrow> Arrow \<times> GameScene" where
  "Arrow_new sc x y opts now =
     (let dmg = Arrow_calculateDamage opts;
          spr = \<lparr>sprite_x = x, sprite_y = y, sprite_active = True,
                 sprite_damage = dmg, sprite_isMaxPower = opt_isMaxPower opts,
                 sprite_creationTime = None, body_allowGravity = True,
                 body_stopped = False\<rparr>;
          a = \<lparr>options = opts, damage = dmg, hasHit = False, creationTime = now,
               destroy_delay = opt_lifetime opts, arrow_sprite = spr\<rparr>
      in (a, addArrowToScene spr sc))"

text \<open>
  What a caller passes to \<^verbatim>\<open>Arrow.createFromShot\<close>: every option may be missing.
\<close>

record shot_options =
  shot_speedMultiplier :: "real option"
  shot_isMaxPower :: "bool option"
  shot_baseDamage :: "real option"
  shot_powerLevel :: "real option"
  shot_damageMultiplier :: "real option"

text \<open>
  \<^verbatim>\<open>Arrow.createFromShot\<close> fills each option with \<^verbatim>\<open>||\<close> and builds the arrow; the
  lifetime is not among the options it passes on, so the default stays.
\<close>

definition createFromShot :: "GameScene \<Rightarrow> real \<Rightarrow> real \<Rightarrow> shot_options \<Rightarrow> real \<Rightarrow> Arrow \<times> GameScene" where
  "createFromShot sc x y opts now =
     Arrow_new sc x y
       (Arrow_defaults
          \<lparr>opt_speedMultiplier :=
             js_or (shot_speedMultiplier opts)
               (if js_or_false (shot_isMaxPower opts) then 12 / 10 else 1),
           opt_isMaxPower := js_or_false (shot_isMaxPower opts),
           opt_baseDamage := js_or (shot_baseDamage opts) 10,
           opt_powerLevel := js_or (shot_powerLevel opts) 100,
           opt_damageMultiplier := js_or (shot_damageMultiplier opts) 1\<rparr>)
       now"



definition Arrow_stop :: "Arrow \<Rightarrow> Arrow" where
  "Arrow_stop a =
     a\<lparr>arrow_sprite := (arrow_sprite a)\<lparr>body_stopped := True, body_allowGravity := False\<rparr>\<rparr>"

section \<open>Base\<close>

record Base =
  base_health :: real
  base_maxHealth :: real
  isPlayerBase :: bool
  base_sprite :: sprite

text \<open>
  \<^verbatim>\<open>Base.onDestroyed\<close> calls the scene's handler of its side. (The scene also installs
  the same handler as the base's own \<^verbatim>\<open>onDestroyed\<close>; either way the handler of the
  base's side runs.)
\<close>

definition Base_onDestroyed :: "Base \<Rightarrow> GameScene \<Rightarrow> GameScene" where
  "Base_onDestroyed b sc =
     (if isPlayerBase b then onPlayerBaseDestroyed sc else onEnemyBaseDestroyed sc)"

text \<open>
  \<^verbatim>\<open>Base.takeDamage(amount, source)\<close>: nothing for a non-number or a non-positive
  amount; otherwise the rounded amount is taken off, the health is clamped at 0, and
  \<^verbatim>\<open>onDestroyed\<close> is called whenever the health is then \<open>\<le> 0\<close>. The health bar, the
  red flash and the damage indicator are presentation.
\<close>

definition Base_takeDamage :: "real option \<Rightarrow> Base \<Rightarrow> GameScene \<Rightarrow> Base \<times> GameScene" where
  "Base_takeDamage amount b sc =
     (case amount of
        None \<Rightarrow> (b, sc)
      | Some amt \<Rightarrow>
          if amt \<le> 0 then (b, sc)
          else
            (let damageAmount = Math_round amt;
                 b' = b\<lparr>base_health := max 0 (base_health b - damageAmount)\<rparr>
             in if base_health b' \<le> 0 then (b', Base_onDestroyed b' sc) else (b', sc)))"

section \<open>Hero\<close>

text \<open>
  The hero. \<^verbatim>\<open>respawn_timers\<close> is not a field of the source: it counts the 15-second
  respawn timers that \<^verbatim>\<open>takeDamage\<close> has scheduled. The oscillation that drives
  \<^verbatim>\<open>powerLevel\<close> while charging is not modelled: a release reads whatever power the
  state holds.
\<close>

record Hero =
  hero_maxHealth :: real
  hero_health :: real
  isAlive :: bool
  hero_sprite :: "sprite option"
  hero_baseDamage :: real
  hero_damageMultiplier :: real
  isCharging :: bool
  chargeStartTime :: real
  powerLevel :: real
  respawn_timers :: nat

definition Hero_new :: "real \<Rightarrow> real \<Rightarrow> Hero" where
  "Hero_new x y =
     \<lparr>hero_maxHealth = 200, hero_health = 200, isAlive = True,
      hero_sprite = Some \<lparr>sprite_x = x, sprite_y = y, sprite_active = True\<rparr>,
      hero_baseDamage = 15, hero_damageMultiplier = 1, isCharging = False,
      chargeStartTime = 0, powerLevel = 0, respawn_timers = 0\<rparr>"

definition startCharging :: "real \<Rightarrow> Hero \<Rightarrow> Hero" where
  "startCharging now h = h\<lparr>isCharging := True, chargeStartTime := now\<rparr>"

text \<open>
  \<^verbatim>\<open>Hero.shootWithPower(targetX, targetY, power)\<close>. The body runs inside
  \<^verbatim>\<open>try\<close>: reading the position of a missing sprite throws, and the \<^verbatim>\<open>catch\<close>
  returns \<^verbatim>\<open>null\<close>. The source returns the new arrow's sprite; the model returns the
  \<^verbatim>\<open>Arrow\<close> that owns it. The target point only sets the heading and is left out.
\<close>

definition shootWithPower :: "real \<Rightarrow> real \<Rightarrow> Hero \<Rightarrow> GameScene \<Rightarrow> Arrow option \<times> GameScene" where
  "shootWithPower pwr now h sc =
     (let isMaxPower = (pwr \<ge> 99)
      in case hero_sprite h of
           None \<Rightarrow> (None, sc)
         | Some spr \<Rightarrow>
             (let (arrow, sc1) =
                    createFromShot sc (sprite_x spr) (sprite_y spr)
                      \<lparr>shot_speedMultiplier = None,
                       shot_isMaxPower = Some isMaxPower,
                       shot_baseDamage = Some (hero_baseDamage h),
                       shot_powerLevel = Some pwr,
                       shot_damageMultiplier = Some (hero_damageMultiplier h)\<rparr>
                      now;
                  sc2 = (if isMaxPower then showMaxPowerText sc1 else sc1)
              in (Some arrow, sc2)))"

text \<open>
  \<^verbatim>\<open>Hero.releaseArrow(targetX, targetY)\<close>: nothing unless charging; charging ends;
  below 34 the charge is wasted, otherwise the shot is fired with the power reached.
\<close>

definition releaseArrow :: "real \<Rightarrow> Hero \<Rightarrow> GameScene \<Rightarrow> Arrow option \<times> Hero \<times> GameScene" where
  "releaseArrow now h sc =
     (if \<not> isCharging h then (None, h, sc)
      else
        (let finalPower = powerLevel h;
             h' = h\<lparr>isCharging := False\<rparr>
         in if finalPower < 34 then (None, h', sc)
            else (let (arrow, sc') = shootWithPower finalPower now h' sc
                  in (arrow, h', sc'))))"

text \<open>
  \<^verbatim>\<open>Hero.takeDamage(amount)\<close>: ignored for a non-number, a non-positive amount or a dead
  hero; the health is clamped at 0; at 0 the hero dies and a respawn is scheduled.
\<close>

definition Hero_takeDamage :: "real option \<Rightarrow> Hero \<Rightarrow> Hero" where
  "Hero_takeDamage amount h =
     (case amount of
        None \<Rightarrow> h
      | Some amt \<Rightarrow>
          if amt \<le> 0 \<or> \<not> isAlive h then h
          else
            (let h' = h\<lparr>hero_health := max 0 (hero_health h - Math_round amt)\<rparr>
             in if hero_health h' \<le> 0
                then h'\<lparr>hero_health := 0, isAlive := False,
                        respawn_timers := Suc (respawn_timers h')\<rparr>
                else h'))"

section \<open>Troop\<close>

text \<open>
  The stats a troop takes from \<^verbatim>\<open>TROOP_CONFIGS\<close>: the defaults of its category,
  overridden by the unit type's entry when the category has one of that name (only
  \<^verbatim>\<open>Ranged\<close> has one, \<^verbatim>\<open>Archer\<close>). A custom configuration passed to the constructor
  is taken to be empty.
\<close>

record troop_config =
  cfg_health :: real
  cfg_speed :: real
  cfg_attackRange :: real
  cfg_verticalAttackFactor :: "real option"
  cfg_attackSpeed :: real
  cfg_attackDamage :: real
  cfg_width :: real
  cfg_height :: real

fun categoryDefaults :: "category \<Rightarrow> troop_config" where
  "categoryDefaults Light =
     \<lparr>cfg_health = 50, cfg_speed = 100, cfg_attackRange = 50,
      cfg_verticalAttackFactor = Some (17 / 10), cfg_attackSpeed = 1000,
      cfg_attackDamage = 10, cfg_width = 20, cfg_height = 40\<rparr>"
| "categoryDefaults Heavy =
     \<lparr>cfg_health = 100, cfg_speed = 70, cfg_attackRange = 40,
      cfg_verticalAttackFactor = Some (6 / 10), cfg_attackSpeed = 1500,
      cfg_attackDamage = 20, cfg_width = 30, cfg_height = 50\<rparr>"
| "categoryDefaults Ranged =
     \<lparr>cfg_health = 30, cfg_speed = 80, cfg_attackRange = 150,
      cfg_verticalAttackFactor = Some 2, cfg_attackSpeed = 2000,
      cfg_attackDamage = 15, cfg_width = 20, cfg_height = 35\<rparr>"

definition unitTypeConfig :: "category \<Rightarrow> string option \<Rightarrow> troop_config" where
  "unitTypeConfig cat unitType =
     (if cat = Ranged \<and> unitType = Some ''Archer''
      then (categoryDefaults Ranged)
             \<lparr>cfg_health := 25, cfg_speed := 60, cfg_attackRange := 200,
              cfg_attackSpeed := 2500, cfg_attackDamage := 25, cfg_width := 18,
              cfg_height := 35\<rparr>
      else categoryDefaults cat)"

record Troop =
  troop_category :: category
  isEnemy :: bool
  troop_health :: real
  attackRange :: real
  attackSpeed :: real
  attackDamage :: real
  troopWidth :: real
  troopHeight :: real
  config :: troop_config
  lastAttackTime :: real
  isAttacking :: bool
  troop_sprite :: sprite

text \<open>The constructor: the sprite is created 20 above the given point.\<close>

definition Troop_new :: "real \<Rightarrow> real \<Rightarrow> category \<Rightarrow> string option \<Rightarrow> bool \<Rightarrow> Troop" where
  "Troop_new x y cat unitType enemy =
     (let cfg = unitTypeConfig cat unitType
      in \<lparr>troop_category = cat, isEnemy = enemy, troop_health = cfg_health cfg,
          attackRange = cfg_attackRange cfg, attackSpeed = cfg_attackSpeed cfg,
          attackDamage = cfg_attackDamage cfg, troopWidth = cfg_width cfg,
          troopHeight = cfg_height cfg, config = cfg, lastAttackTime = 0,
          isAttacking = False,
          troop_sprite = \<lparr>sprite_x = x, sprite_y = y - 20, sprite_active = True\<rparr>\<rparr>)"

text \<open>\<^verbatim>\<open>DAMAGE_MULTIPLIERS[attacker][target]\<close>.\<close>

fun DAMAGE_MULTIPLIERS :: "category \<Rightarrow> category \<Rightarrow> real" where
  "DAMAGE_MULTIPLIERS Light Light = 1"
| "DAMAGE_MULTIPLIERS Light Heavy = 7 / 10"
| "DAMAGE_MULTIPLIERS Light Ranged = 12 / 10"
| "DAMAGE_MULTIPLIERS Heavy Light = 13 / 10"
| "DAMAGE_MULTIPLIERS Heavy Heavy = 1"
| "DAMAGE_MULTIPLIERS Heavy Ranged = 15 / 10"
| "DAMAGE_MULTIPLIERS Ranged Light = 15 / 10"
| "DAMAGE_MULTIPLIERS Ranged Heavy = 8 / 10"
| "DAMAGE_MULTIPLIERS Ranged Ranged = 1"

text \<open>
  \<^verbatim>\<open>Troop.calculateDamage(target)\<close>: the multiplier applies when the target has a
  category (a base and the hero have none) and the table's entry is truthy.
\<close>

definition Troop_calculateDamage :: "Troop \<Rightarrow> category option \<Rightarrow> real" where
  "Troop_calculateDamage t target_category =
     (let dmg = attackDamage t;
          dmg =
            (case target_category of
               None \<Rightarrow> dmg
             | Some tc \<Rightarrow>
                 if DAMAGE_MULTIPLIERS (troop_category t) tc \<noteq> 0
                 then dmg * DAMAGE_MULTIPLIERS (troop_category t) tc
                 else dmg)
      in Math_round dmg)"


text \<open>
  The scene's \<^verbatim>\<open>awardGoldForKill(troop)\<close>: for an enemy troop, the kill reward in gold
  and the category's XP.
\<close>

definition awardGoldForKill :: "Troop \<Rightarrow> GameScene \<Rightarrow> GameScene" where
  "awardGoldForKill t sc =
     (if \<not> isEnemy t then sc
      else
        (let reward = calculateKillReward (gameManager sc) (troop_category t);
             g1 = addGold reward ''enemy kill'' (gameManager sc);
             g2 = addXP (xpRewards_troopKill (troop_category t)) g1
         in sc\<lparr>gameManager := g2\<rparr>))"

definition Troop_destroy :: "Troop \<Rightarrow> Troop" where
  "Troop_destroy t =
     (if sprite_active (troop_sprite t)
      then t\<lparr>troop_sprite := (troop_sprite t)\<lparr>sprite_active := False\<rparr>\<rparr> else t)"

text \<open>
  \<^verbatim>\<open>Troop.takeDamage(damage)\<close>: nothing for a non-number or a non-positive amount;
  otherwise the rounded amount is subtracted, with no clamp; at health \<open>\<le> 0\<close> an enemy
  troop's kill is rewarded and the troop is destroyed.
\<close>

definition Troop_takeDamage :: "real option \<Rightarrow> Troop \<Rightarrow> GameScene \<Rightarrow> Troop \<times> GameScene" where
  "Troop_takeDamage dmg t sc =
     (case dmg of
        None \<Rightarrow> (t, sc)
      | Some d \<Rightarrow>
          if d \<le> 0 then (t, sc)
          else
            (let damageAmount = Math_round d;
                 t' = t\<lparr>troop_health := troop_health t - damageAmount\<rparr>
             in if troop_health t' \<le> 0
                then (Troop_destroy t',
                      if isEnemy t' then awardGoldForKill t' sc else sc)
                else (t', sc)))"

section \<open>Collisions\<close>

text \<open>
  The collision layer reports an overlap by calling the handler registered for the
  pair. \<^verbatim>\<open>Arrow.hitEnemy(arrow, enemySprite)\<close> handles a hero arrow meeting an enemy
  troop; the troop is the sprite's \<^verbatim>\<open>parentTroop\<close>, \<^term>\<open>None\<close> when the sprite has
  none. The damage applied is \<^verbatim>\<open>this.damage || 10\<close>. The fade-out that ends with the
  arrow's destruction is presentation.
\<close>

definition Arrow_hitEnemy :: "Arrow \<Rightarrow> Troop option \<Rightarrow> GameScene \<Rightarrow> Arrow \<times> Troop option \<times> GameScene" where
  "Arrow_hitEnemy a parentTroop sc =
     (if hasHit a then (a, parentTroop, sc)
      else
        (let a1 = a\<lparr>hasHit := True\<rparr>
         in case parentTroop of
              None \<Rightarrow> (a1, None, sc)
            | Some t \<Rightarrow>
                (let dmg = js_or (Some (damage a1)) 10;
                     (t', sc') = Troop_takeDamage (Some dmg) t sc
                 in (Arrow_stop a1, Some t', sc'))))"

text \<open>\<^verbatim>\<open>Arrow.hitBase(arrow, baseSprite)\<close>, the same against a base.\<close>

definition Arrow_hitBase :: "Arrow \<Rightarrow> Base option \<Rightarrow> GameScene \<Rightarrow> Arrow \<times> Base option \<times> GameScene" where
  "Arrow_hitBase a baseInstance sc =
     (if hasHit a then (a, baseInstance, sc)
      else
        (let a1 = a\<lparr>hasHit := True\<rparr>
         in case baseInstance of
              None \<Rightarrow> (a1, None, sc)
            | Some b \<Rightarrow>
                (let dmg = js_or (Some (damage a1)) 10;
                     (b', sc') = Base_takeDamage (Some dmg) b sc
                 in (Arrow_stop a1, Some b', sc'))))"

text \<open>What a troop can attack: another troop, a base or the hero.\<close>

datatype target = TroopTarget Troop | BaseTarget Base | HeroTarget Hero

fun target_sprite :: "target \<Rightarrow> sprite option" where
  "target_sprite (TroopTarget t) = Some (troop_sprite t)"
| "target_sprite (BaseTarget b) = Some (base_sprite b)"
| "target_sprite (HeroTarget h) = hero_sprite h"

fun target_health :: "target \<Rightarrow> real" where
  "target_health (TroopTarget t) = troop_health t"
| "target_health (BaseTarget b) = base_health b"
| "target_health (HeroTarget h) = hero_health h"

fun target_takeDamage :: "real option \<Rightarrow> target \<Rightarrow> GameScene \<Rightarrow> target \<times> GameScene" where
  "target_takeDamage dmg (TroopTarget t) sc =
     (let (t', sc') = Troop_takeDamage dmg t sc in (TroopTarget t', sc'))"
| "target_takeDamage dmg (BaseTarget b) sc =
     (let (b', sc') = Base_takeDamage dmg b sc in (BaseTarget b', sc'))"
| "target_takeDamage dmg (HeroTarget h) sc = (HeroTarget (Hero_takeDamage dmg h), sc)"

text \<open>
  The projectile of a ranged troop. \<^verbatim>\<open>Troop.createRangedAttack(target, damage)\<close> makes
  a plain rectangle at the troop's position and registers an overlap handler that closes
  over \<open>damage\<close>; \<^verbatim>\<open>ranged_damage\<close> is that captured value. Nothing is created when the
  target has no active sprite.
\<close>

record ranged_arrow =
  ranged_damage :: real
  ranged_sprite :: sprite

definition createRangedAttack :: "Troop \<Rightarrow> target \<Rightarrow> real \<Rightarrow> ranged_arrow option" where
  "createRangedAttack t tgt dmg =
     (case target_sprite tgt of
        None \<Rightarrow> None
      | Some ts \<Rightarrow>
          if \<not> sprite_active ts then None
          else Some \<lparr>ranged_damage = dmg,
                     ranged_sprite =
                       \<lparr>sprite_x = sprite_x (troop_sprite t),
                        sprite_y = sprite_y (troop_sprite t), sprite_active = True\<rparr>\<rparr>)"

text \<open>
  The overlap handler of that projectile: the target takes the damage, then the
  projectile is destroyed. The handler reads no flag of the projectile. (A second
  handler with the same body is registered for the target's hitbox when it has one, and
  a timer destroys a projectile that is still active after 3,000 ms.)
\<close>

definition ranged_overlap :: "ranged_arrow \<Rightarrow> target \<Rightarrow> GameScene \<Rightarrow> ranged_arrow \<times> target \<times> GameScene" where
  "ranged_overlap ra tgt sc =
     (let (tgt', sc') = target_takeDamage (Some (ranged_damage ra)) tgt sc
      in (ra\<lparr>ranged_sprite := (ranged_sprite ra)\<lparr>sprite_active := False\<rparr>\<rparr>, tgt', sc'))"

fun target_category :: "target \<Rightarrow> category option" where
  "target_category (TroopTarget t) = Some (troop_category t)"
| "target_category (BaseTarget b) = None"
| "target_category (HeroTarget h) = None"




text \<open>The scene at the start of a round: a 2000 by 600 world.\<close>

definition GameScene_new :: GameScene where
  "GameScene_new =
     \<lparr>gameActive = True, arrows = [], worldBounds_width = 2000, worldBounds_height = 600,
      gameManager = GameManager_new, showMaxPowerText_calls = 0,
      onPlayerBaseDestroyed_calls = 0, onEnemyBaseDestroyed_calls = 0\<rparr>"

text \<open>The enemy base as the scene creates it in the first round.\<close>

definition enemyBase_new :: Base where
  "enemyBase_new =
     \<lparr>base_health = 300, base_maxHealth = 300, isPlayerBase = False,
      base_sprite = \<lparr>sprite_x = 1900, sprite_y = 490, sprite_active = True\<rparr>\<rparr>"

section \<open>Facts about the helpers\<close>


lemma Math_round_nonneg: "0 \<le> v \<Longrightarrow> 0 \<le> Math_round v"
  by (simp add: Math_round_def)

lemma Math_floor_nonneg: "0 \<le> v \<Longrightarrow> 0 \<le> Math_floor v"
  by (simp add: Math_floor_def)

lemma resourceMultiplier_nonneg: "0 \<le> resourceMultiplier (getDifficultyParameters g)"
  by (simp add: getDifficultyParameters_def split: option.splits difficulty.splits)

section \<open>The damage of a hero's shot\<close>





section \<open>Falsy shot options\<close>

text \<open>
  C9. \<^verbatim>\<open>Arrow.createFromShot\<close> replaces a falsy option by its default: a power level
  of 0 becomes 100, a base damage of 0 becomes 10, a damage multiplier of 0 becomes 1,
  whatever the other options are; the damage is then that of the default, and a shot
  with all three at 0 deals 10.
\<close>

theorem falsy_shot_options_defaulted:
  "opt_powerLevel (options (fst (createFromShot sc x y (opts\<lparr>shot_powerLevel := Some 0\<rparr>) now))) = 100
   \<and> opt_baseDamage (options (fst (createFromShot sc x y (opts\<lparr>shot_baseDamage := Some 0\<rparr>) now))) = 10
   \<and> opt_damageMultiplier (options (fst (createFromShot sc x y (opts\<lparr>shot_damageMultiplier := Some 0\<rparr>) now))) = 1
   \<and> damage (fst (createFromShot sc x y (opts\<lparr>shot_powerLevel := Some 0\<rparr>) now))
       = damage (fst (createFromShot sc x y (opts\<lparr>shot_powerLevel := Some 100\<rparr>) now))
   \<and> damage (fst (createFromShot sc x y (opts\<lparr>shot_baseDamage := Some 0\<rparr>) now))
       = damage (fst (createFromShot sc x y (opts\<lparr>shot_baseDamage := Some 10\<rparr>) now))
   \<and> damage (fst (createFromShot sc x y (opts\<lparr>shot_damageMultiplier := Some 0\<rparr>) now))
       = damage (fst (createFromShot sc x y (opts\<lparr>shot_damageMultiplier := Some 1\<rparr>) now))
   \<and> damage (fst (createFromShot sc x y
        \<lparr>shot_speedMultiplier = None, shot_isMaxPower = None, shot_baseDamage = Some 0,
         shot_powerLevel = Some 0, shot_damageMultiplier = Some 0\<rparr> now)) = 10"
  by (simp add: createFromShot_def Arrow_new_def Let_def js_or_def js_or_false_def
      Arrow_calculateDamage_def Arrow_defaults_def Math_round_def)

section \<open>The charge threshold\<close>

text \<open>
  C6. Releasing a charge below power 34 returns no arrow, ends the charge and leaves the
  scene as it was. Releasing at 34 or more (by a hero that has its sprite) returns one
  arrow and ends the charge; the scene tracks exactly that one new sprite; the arrow
  carries the power reached, and it is a max-power shot exactly from 99 on.
\<close>

theorem release_threshold:
  assumes "isCharging h"
  shows "(powerLevel h < 34 \<longrightarrow>
            releaseArrow now h sc = (None, h\<lparr>isCharging := False\<rparr>, sc))
       \<and> (powerLevel h \<ge> 34 \<longrightarrow> hero_sprite h \<noteq> None \<longrightarrow>
            (\<exists>arrow sc'.
               releaseArrow now h sc = (Some arrow, h\<lparr>isCharging := False\<rparr>, sc')
               \<and> arrows sc' = arrows sc @ [arrow_sprite arrow]
               \<and> opt_powerLevel (options arrow) = powerLevel h
               \<and> (opt_isMaxPower (options arrow) \<longleftrightarrow> powerLevel h \<ge> 99)
               \<and> (sprite_isMaxPower (arrow_sprite arrow) \<longleftrightarrow> powerLevel h \<ge> 99)))"
  using assms
  by (auto simp: releaseArrow_def shootWithPower_def createFromShot_def Arrow_new_def
      Let_def js_or_def js_or_false_def addArrowToScene_def showMaxPowerText_def
      split: option.splits prod.splits if_splits)

text \<open>The boundary: a release at 33.99 fires nothing, a release at 34 fires one arrow.\<close>

theorem release_threshold_witness:
  "isCharging ((startCharging 0 (Hero_new 200 400))\<lparr>powerLevel := 3399 / 100\<rparr>)
   \<and> releaseArrow 500 ((startCharging 0 (Hero_new 200 400))\<lparr>powerLevel := 3399 / 100\<rparr>)
        GameScene_new
      = (None,
         (startCharging 0 (Hero_new 200 400))\<lparr>powerLevel := 3399 / 100, isCharging := False\<rparr>,
         GameScene_new)
   \<and> (\<exists>arrow sc'.
         releaseArrow 500 ((startCharging 0 (Hero_new 200 400))\<lparr>powerLevel := 34\<rparr>)
           GameScene_new
         = (Some arrow,
            (startCharging 0 (Hero_new 200 400))\<lparr>powerLevel := 34, isCharging := False\<rparr>,
            sc')
         \<and> arrows sc' = [arrow_sprite arrow]
         \<and> opt_powerLevel (options arrow) = 34
         \<and> \<not> opt_isMaxPower (options arrow))"
proof -
  let ?low = "(startCharging 0 (Hero_new 200 400))\<lparr>powerLevel := 3399 / 100\<rparr>"
  let ?ok = "(startCharging 0 (Hero_new 200 400))\<lparr>powerLevel := 34\<rparr>"
  have c: "isCharging ?low" "isCharging ?ok"
    by (simp_all add: startCharging_def)
  have s: "hero_sprite ?ok \<noteq> None"
    by (simp add: startCharging_def Hero_new_def)
  have low: "releaseArrow 500 ?low GameScene_new = (None, ?low\<lparr>isCharging := False\<rparr>, GameScene_new)"
    using release_threshold [OF c(1), of 500 GameScene_new] by simp
  have ok: "\<exists>arrow sc'.
      releaseArrow 500 ?ok GameScene_new = (Some arrow, ?ok\<lparr>isCharging := False\<rparr>, sc')
      \<and> arrows sc' = [arrow_sprite arrow]
      \<and> opt_powerLevel (options arrow) = 34
      \<and> \<not> opt_isMaxPower (options arrow)"
    using release_threshold [OF c(2), of 500 GameScene_new] s
    by (auto simp: GameScene_new_def)
  from c(1) low ok show ?thesis by simp
qed

section \<open>The category matchup\<close>






section \<open>The effective attack range\<close>



section \<open>Troop health is not clamped\<close>

text \<open>
  C10. For a positive amount, \<^verbatim>\<open>Troop.takeDamage\<close> takes the rounded amount off the
  health with no clamp, so a destroyed troop's health can be negative (a Light enemy
  hit for 60 ends at -10), while \<^verbatim>\<open>Base.takeDamage\<close> and \<^verbatim>\<open>Hero.takeDamage\<close> (on a
  living hero) leave \<open>max(0, health - round(amount))\<close>. A troop whose sprite was active
  is destroyed by the hit exactly when its health is then \<open>\<le> 0\<close>, and the kill reward
  (gold and XP) is credited exactly when moreover it is an enemy troop; otherwise the
  scene is unchanged.
\<close>

theorem troop_health_not_clamped:
  "(0 < d \<longrightarrow>
      troop_health (fst (Troop_takeDamage (Some d) t sc)) = troop_health t - Math_round d)
   \<and> troop_health (fst (Troop_takeDamage (Some 60) (Troop_new 340 570 Light None True)
        GameScene_new)) = - 10
   \<and> (0 < d \<longrightarrow>
        base_health (fst (Base_takeDamage (Some d) b sc)) = max 0 (base_health b - Math_round d))
   \<and> (0 < d \<longrightarrow> isAlive h \<longrightarrow>
        hero_health (Hero_takeDamage (Some d) h) = max 0 (hero_health h - Math_round d))
   \<and> (0 < d \<longrightarrow> sprite_active (troop_sprite t) \<longrightarrow>
        (sprite_active (troop_sprite (fst (Troop_takeDamage (Some d) t sc))) \<longleftrightarrow>
           \<not> troop_health (fst (Troop_takeDamage (Some d) t sc)) \<le> 0))
   \<and> (0 < d \<longrightarrow>
        snd (Troop_takeDamage (Some d) t sc) =
          (if isEnemy t \<and> troop_health t - Math_round d \<le> 0
           then sc\<lparr>gameManager :=
                  addXP (xpRewards_troopKill (troop_category t))
                    (addGold (calculateKillReward (gameManager sc) (troop_category t))
                       ''enemy kill'' (gameManager sc))\<rparr>
           else sc))"
  by (auto simp: Troop_takeDamage_def Base_takeDamage_def Hero_takeDamage_def Let_def
      Troop_destroy_def Troop_new_def unitTypeConfig_def Math_round_def awardGoldForKill_def
      max_def)

text \<open>
  A Light enemy (health 50) hit for 60 is destroyed at health -10 and pays 10 gold; hit
  for 20 it lives on at 30 and nothing is paid. The enemy base hit for 400 and the hero
  hit for 250 both end at 0.
\<close>

theorem troop_health_not_clamped_witness:
  "troop_health (fst (Troop_takeDamage (Some 60) (Troop_new 340 570 Light None True)
      GameScene_new)) = - 10
   \<and> \<not> sprite_active (troop_sprite (fst (Troop_takeDamage (Some 60)
        (Troop_new 340 570 Light None True) GameScene_new)))
   \<and> gold (gameManager (snd (Troop_takeDamage (Some 60)
        (Troop_new 340 570 Light None True) GameScene_new))) = 110
   \<and> troop_health (fst (Troop_takeDamage (Some 20) (Troop_new 340 570 Light None True)
        GameScene_new)) = 30
   \<and> sprite_active (troop_sprite (fst (Troop_takeDamage (Some 20)
        (Troop_new 340 570 Light None True) GameScene_new)))
   \<and> snd (Troop_takeDamage (Some 20) (Troop_new 340 570 Light None True) GameScene_new)
       = GameScene_new
   \<and> base_health (fst (Base_takeDamage (Some 400) enemyBase_new GameScene_new)) = 0
   \<and> hero_health (Hero_takeDamage (Some 250) (Hero_new 200 400)) = 0"
proof -
  let ?enemy = "Troop_new 340 570 Light None True"
  have stats: "troop_health ?enemy = 50" "isEnemy ?enemy" "troop_category ?enemy = Light"
    "sprite_active (troop_sprite ?enemy)" "base_health enemyBase_new = 300"
    "isAlive (Hero_new 200 400)" "hero_health (Hero_new 200 400) = 200"
    by (simp_all add: Troop_new_def unitTypeConfig_def enemyBase_new_def Hero_new_def)
  have rounds: "Math_round 60 = 60" "Math_round 20 = 20" "Math_round 400 = 400"
    "Math_round 250 = 250"
    by (simp_all add: Math_round_def)
  have reward: "\<And>n. gold (addXP n
      (addGold (calculateKillReward (gameManager GameScene_new) Light) ''enemy kill''
         (gameManager GameScene_new))) = 110"
    by (simp add: addXP_def addGold_def calculateKillReward_def GameScene_new_def
        GameManager_new_def getDifficultyParameters_def killRewards_basePercentage_def
        js_or_def Math_floor_def Let_def)
  have kill: "troop_health (fst (Troop_takeDamage (Some 60) ?enemy GameScene_new)) = - 10
     \<and> \<not> sprite_active (troop_sprite (fst (Troop_takeDamage (Some 60) ?enemy GameScene_new)))
     \<and> gold (gameManager (snd (Troop_takeDamage (Some 60) ?enemy GameScene_new))) = 110
     \<and> base_health (fst (Base_takeDamage (Some 60) enemyBase_new GameScene_new)) = 240"
    using troop_health_not_clamped [of 60 ?enemy GameScene_new enemyBase_new "Hero_new 200 400"]
    by (simp add: stats rounds reward)
  have hurt: "troop_health (fst (Troop_takeDamage (Some 20) ?enemy GameScene_new)) = 30
     \<and> sprite_active (troop_sprite (fst (Troop_takeDamage (Some 20) ?enemy GameScene_new)))
     \<and> snd (Troop_takeDamage (Some 20) ?enemy GameScene_new) = GameScene_new"
    using troop_health_not_clamped [of 20 ?enemy GameScene_new enemyBase_new "Hero_new 200 400"]
    by (simp add: stats rounds)
  have clamp: "base_health (fst (Base_takeDamage (Some 400) enemyBase_new GameScene_new)) = 0"
    using troop_health_not_clamped [of 400 ?enemy GameScene_new enemyBase_new "Hero_new 200 400"]
    by (simp add: stats rounds)
  have hero: "hero_health (Hero_takeDamage (Some 250) (Hero_new 200 400)) = 0"
    using troop_health_not_clamped [of 250 ?enemy GameScene_new enemyBase_new "Hero_new 200 400"]
    by (simp add: stats rounds)
  from kill hurt clamp hero show ?thesis by simp
qed

section \<open>A destroyed base is destroyed again\<close>

text \<open>
  C2. The claim is that after a base's health has reached 0 a further \<^verbatim>\<open>takeDamage\<close>
  does not call the destruction handler again. \<^verbatim>\<open>Base.takeDamage\<close> has no such guard:
  it calls \<^verbatim>\<open>onDestroyed\<close> whenever the health is \<open>\<le> 0\<close> after a positive hit. The
  enemy base of the first round, hit for 300 and then for 15: the health stays at 0,
  but the scene's handler has run twice and has credited the base-destroy XP twice.
\<close>

theorem base_destroyed_fires_again:
  "(case Base_takeDamage (Some 300) enemyBase_new GameScene_new of
      (b1, s1) \<Rightarrow>
        base_health b1 = 0 \<and> onEnemyBaseDestroyed_calls s1 = 1 \<and> xp (gameManager s1) = 100
        \<and> (case Base_takeDamage (Some 15) b1 s1 of
              (b2, s2) \<Rightarrow>
                base_health b2 = 0 \<and> onEnemyBaseDestroyed_calls s2 = 2
                \<and> xp (gameManager s2) = 200))"
  by (simp add: Base_takeDamage_def enemyBase_new_def GameScene_new_def GameManager_new_def
      Base_onDestroyed_def onEnemyBaseDestroyed_def addXP_def xpRewards_baseDestroy_def
      Math_round_def Let_def)

section \<open>Resolving a hit once\<close>

lemma hitEnemy_marks: "hasHit (fst (Arrow_hitEnemy a t sc))"
  by (auto simp: Arrow_hitEnemy_def Let_def Arrow_stop_def split: option.splits prod.splits)

lemma hitBase_marks: "hasHit (fst (Arrow_hitBase a b sc))"
  by (auto simp: Arrow_hitBase_def Let_def Arrow_stop_def split: option.splits prod.splits)

lemma hitEnemy_after_hit: "hasHit a \<Longrightarrow> Arrow_hitEnemy a t sc = (a, t, sc)"
  by (simp add: Arrow_hitEnemy_def)

lemma hitBase_after_hit: "hasHit a \<Longrightarrow> Arrow_hitBase a b sc = (a, b, sc)"
  by (simp add: Arrow_hitBase_def)

text \<open>
  C3, as amended. A hero arrow resolves once: whatever \<^verbatim>\<open>hitEnemy\<close> (or \<^verbatim>\<open>hitBase\<close>)
  leaves behind, delivering the same overlap again changes nothing, neither the arrow
  nor the target nor the scene; and the first delivery to an arrow that has not hit
  applies one \<^verbatim>\<open>takeDamage\<close> of the arrow's damage (of 10 when the stored damage is 0).
  The projectile of a ranged troop has no such guard: every delivery of its overlap
  applies the damage to the target, whether or not the projectile is still active, and
  leaves the projectile destroyed.
\<close>

theorem hero_arrow_resolves_once:
  "(case Arrow_hitEnemy a t sc of (a1, t1, sc1) \<Rightarrow> Arrow_hitEnemy a1 t1 sc1 = (a1, t1, sc1))
   \<and> (case Arrow_hitBase a b sc of (a1, b1, sc1) \<Rightarrow> Arrow_hitBase a1 b1 sc1 = (a1, b1, sc1))
   \<and> (\<not> hasHit a \<longrightarrow>
        Arrow_hitEnemy a (Some v) sc =
          (Arrow_stop (a\<lparr>hasHit := True\<rparr>),
           Some (fst (Troop_takeDamage (Some (js_or (Some (damage a)) 10)) v sc)),
           snd (Troop_takeDamage (Some (js_or (Some (damage a)) 10)) v sc)))
   \<and> (\<not> hasHit a \<longrightarrow>
        Arrow_hitBase a (Some w) sc =
          (Arrow_stop (a\<lparr>hasHit := True\<rparr>),
           Some (fst (Base_takeDamage (Some (js_or (Some (damage a)) 10)) w sc)),
           snd (Base_takeDamage (Some (js_or (Some (damage a)) 10)) w sc)))
   \<and> snd (ranged_overlap ra tgt sc) = target_takeDamage (Some (ranged_damage ra)) tgt sc
   \<and> \<not> sprite_active (ranged_sprite (fst (ranged_overlap ra tgt sc)))"
proof (intro conjI impI)
  show "case Arrow_hitEnemy a t sc of (a1, t1, sc1) \<Rightarrow> Arrow_hitEnemy a1 t1 sc1 = (a1, t1, sc1)"
    using hitEnemy_marks [of a t sc] by (auto simp: hitEnemy_after_hit split: prod.splits)
  show "case Arrow_hitBase a b sc of (a1, b1, sc1) \<Rightarrow> Arrow_hitBase a1 b1 sc1 = (a1, b1, sc1)"
    using hitBase_marks [of a b sc] by (auto simp: hitBase_after_hit split: prod.splits)
  show "snd (ranged_overlap ra tgt sc) = target_takeDamage (Some (ranged_damage ra)) tgt sc"
    by (simp add: ranged_overlap_def case_prod_beta)
  show "\<not> sprite_active (ranged_sprite (fst (ranged_overlap ra tgt sc)))"
    by (simp add: ranged_overlap_def case_prod_beta)
next
  assume "\<not> hasHit a"
  then show "Arrow_hitEnemy a (Some v) sc =
          (Arrow_stop (a\<lparr>hasHit := True\<rparr>),
           Some (fst (Troop_takeDamage (Some (js_or (Some (damage a)) 10)) v sc)),
           snd (Troop_takeDamage (Some (js_or (Some (damage a)) 10)) v sc))"
    by (simp add: Arrow_hitEnemy_def Let_def case_prod_beta)
next
  assume "\<not> hasHit a"
  then show "Arrow_hitBase a (Some w) sc =
          (Arrow_stop (a\<lparr>hasHit := True\<rparr>),
           Some (fst (Base_takeDamage (Some (js_or (Some (damage a)) 10)) w sc)),
           snd (Base_takeDamage (Some (js_or (Some (damage a)) 10)) w sc))"
    by (simp add: Arrow_hitBase_def Let_def case_prod_beta)
qed

text \<open>
  The hero's arrow of damage 15 meets a Heavy enemy (health 100), or the enemy base
  (health 300): after the first delivery the target is at 85, or 285, and the arrow has
  hit; a second delivery leaves everything as it is.
\<close>

theorem hero_arrow_resolves_once_witness:
  "(case Arrow_hitEnemy
           (fst (createFromShot GameScene_new 200 400
              \<lparr>shot_speedMultiplier = None, shot_isMaxPower = Some False,
               shot_baseDamage = Some 15, shot_powerLevel = Some 60,
               shot_damageMultiplier = Some 1\<rparr> 0))
           (Some (Troop_new 340 570 Heavy None True)) GameScene_new of
      (a1, t1, sc1) \<Rightarrow>
        (\<exists>t. t1 = Some t \<and> troop_health t = 85) \<and> hasHit a1
        \<and> Arrow_hitEnemy a1 t1 sc1 = (a1, t1, sc1))
   \<and> (case Arrow_hitBase
           (fst (createFromShot GameScene_new 200 400
              \<lparr>shot_speedMultiplier = None, shot_isMaxPower = Some False,
               shot_baseDamage = Some 15, shot_powerLevel = Some 60,
               shot_damageMultiplier = Some 1\<rparr> 0))
           (Some enemyBase_new) GameScene_new of
      (a1, b1, sc1) \<Rightarrow>
        (\<exists>b. b1 = Some b \<and> base_health b = 285) \<and> hasHit a1
        \<and> Arrow_hitBase a1 b1 sc1 = (a1, b1, sc1))"
proof -
  let ?a = "fst (createFromShot GameScene_new 200 400
              \<lparr>shot_speedMultiplier = None, shot_isMaxPower = Some False,
               shot_baseDamage = Some 15, shot_powerLevel = Some 60,
               shot_damageMultiplier = Some 1\<rparr> 0)"
  let ?v = "Troop_new 340 570 Heavy None True"
  have fresh: "\<not> hasHit ?a" "damage ?a = 15"
    by (simp_all add: createFromShot_def Arrow_new_def Let_def js_or_def js_or_false_def
        Arrow_calculateDamage_def Arrow_defaults_def Math_round_def)
  have hurt: "troop_health (fst (Troop_takeDamage (Some 15) ?v GameScene_new)) = 85"
    by (simp add: Troop_takeDamage_def Troop_new_def unitTypeConfig_def Math_round_def Let_def)
  have dent: "base_health (fst (Base_takeDamage (Some 15) enemyBase_new GameScene_new)) = 285"
    by (simp add: Base_takeDamage_def enemyBase_new_def Math_round_def Let_def)
  note once = hero_arrow_resolves_once [of ?a "Some ?v" GameScene_new "Some enemyBase_new" ?v
      enemyBase_new]
  have first_troop: "Arrow_hitEnemy ?a (Some ?v) GameScene_new =
      (Arrow_stop (?a\<lparr>hasHit := True\<rparr>),
       Some (fst (Troop_takeDamage (Some 15) ?v GameScene_new)),
       snd (Troop_takeDamage (Some 15) ?v GameScene_new))"
    using once fresh by (simp add: js_or_def)
  have first_base: "Arrow_hitBase ?a (Some enemyBase_new) GameScene_new =
      (Arrow_stop (?a\<lparr>hasHit := True\<rparr>),
       Some (fst (Base_takeDamage (Some 15) enemyBase_new GameScene_new)),
       snd (Base_takeDamage (Some 15) enemyBase_new GameScene_new))"
    using once fresh by (simp add: js_or_def)
  have again_troop: "case Arrow_hitEnemy ?a (Some ?v) GameScene_new of
      (a1, t1, sc1) \<Rightarrow> Arrow_hitEnemy a1 t1 sc1 = (a1, t1, sc1)"
    by (rule once [THEN conjunct1])
  have again_base: "case Arrow_hitBase ?a (Some enemyBase_new) GameScene_new of
      (a1, b1, sc1) \<Rightarrow> Arrow_hitBase a1 b1 sc1 = (a1, b1, sc1)"
    by (rule once [THEN conjunct2, THEN conjunct1])
  show ?thesis
    using again_troop again_base hurt dent
    by (simp add: first_troop first_base Arrow_stop_def)
qed

text \<open>
  The claim as stated fails for the projectile of a ranged troop. A Ranged troop shoots
  at a Heavy enemy (health 100) for \<open>round(15 \<times> 0.8) = 12\<close>. The overlap of that
  projectile with that target, delivered once, leaves the target at 88; delivered a
  second time, it leaves it at 76: two applications of the damage, not one.
\<close>

theorem ranged_projectile_hits_twice:
  "createRangedAttack (Troop_new 300 570 Ranged None False)
     (TroopTarget (Troop_new 340 570 Heavy None True))
     (Troop_calculateDamage (Troop_new 300 570 Ranged None False) (Some Heavy))
   = Some \<lparr>ranged_damage = 12,
           ranged_sprite = \<lparr>sprite_x = 300, sprite_y = 550, sprite_active = True\<rparr>\<rparr>
   \<and> (case ranged_overlap
             \<lparr>ranged_damage = 12,
              ranged_sprite = \<lparr>sprite_x = 300, sprite_y = 550, sprite_active = True\<rparr>\<rparr>
             (TroopTarget (Troop_new 340 570 Heavy None True)) GameScene_new of
         (ra1, tgt1, sc1) \<Rightarrow>
           target_health tgt1 = 88
           \<and> (case ranged_overlap ra1 tgt1 sc1 of
                 (ra2, tgt2, sc2) \<Rightarrow> target_health tgt2 = 76))"
  by (simp add: createRangedAttack_def Troop_calculateDamage_def Troop_new_def
      unitTypeConfig_def ranged_overlap_def Troop_takeDamage_def Math_round_def Let_def)

section \<open>Spending gold\<close>

lemma addGold_keeps_nonneg:
  "0 \<le> gold g \<Longrightarrow> 0 \<le> amount \<Longrightarrow> 0 \<le> gold (addGold amount source g)"
  using Math_floor_nonneg [of "amount * resourceMultiplier (getDifficultyParameters g)"]
    resourceMultiplier_nonneg [of g]
  by (simp add: addGold_def Let_def)

lemma spendGold_keeps_nonneg: "0 \<le> gold g \<Longrightarrow> 0 \<le> gold (fst (spendGold amount g))"
  by (simp add: spendGold_def)

lemma gold_call_step_keeps_nonneg:
  "0 \<le> gold g \<Longrightarrow> adds_no_debt c \<Longrightarrow> 0 \<le> gold (gold_call_step g c)"
  by (cases c) (simp_all add: addGold_keeps_nonneg spendGold_keeps_nonneg)

lemma gold_calls_keep_nonneg:
  "0 \<le> gold g \<Longrightarrow> \<forall>c\<in>set cs. adds_no_debt c \<Longrightarrow> 0 \<le> gold (gold_calls g cs)"
proof (induction cs arbitrary: g)
  case Nil
  then show ?case by simp
next
  case (Cons c cs)
  then show ?case by (simp add: gold_call_step_keeps_nonneg)
qed

text \<open>
  C4, as amended. \<^verbatim>\<open>spendGold(amount)\<close> is atomic: with less gold than the amount it
  returns false and changes nothing; otherwise it returns true and the gold goes down
  by exactly the amount. From a balance that is not negative, every run of spend calls
  (of any amount) and of add calls whose amounts are not negative keeps the balance
  from ever becoming negative: after every prefix of the run it is \<open>\<ge> 0\<close>.
\<close>

theorem spend_gold_atomic:
  "(gold g < amount \<longrightarrow> spendGold amount g = (g, False))
   \<and> (gold g \<ge> amount \<longrightarrow> spendGold amount g = (g\<lparr>gold := gold g - amount\<rparr>, True))
   \<and> (0 \<le> gold g \<longrightarrow> (\<forall>c\<in>set cs. adds_no_debt c) \<longrightarrow>
        (\<forall>n. 0 \<le> gold (gold_calls g (take n cs))))"
proof (intro conjI impI allI)
  show "gold g < amount \<Longrightarrow> spendGold amount g = (g, False)"
    by (simp add: spendGold_def)
  show "gold g \<ge> amount \<Longrightarrow> spendGold amount g = (g\<lparr>gold := gold g - amount\<rparr>, True)"
    by (simp add: spendGold_def)
next
  fix n
  assume "0 \<le> gold g" and "\<forall>c\<in>set cs. adds_no_debt c"
  then show "0 \<le> gold (gold_calls g (take n cs))"
    by (intro gold_calls_keep_nonneg) (auto dest: in_set_takeD)
qed

text \<open>
  The new ledger (100 gold): spending 500 fails and changes nothing, spending 20
  leaves 80; the run spend 20, passive income 20, spend 500, kill reward 10 never goes
  below 0 and ends at 110.
\<close>

theorem spend_gold_atomic_witness:
  "spendGold 500 GameManager_new = (GameManager_new, False)
   \<and> spendGold 20 GameManager_new = (GameManager_new\<lparr>gold := 80\<rparr>, True)
   \<and> (\<forall>n. 0 \<le> gold (gold_calls GameManager_new
          (take n [SpendGold 20, AddGold 20 ''passive'', SpendGold 500,
                   AddGold 10 ''enemy kill''])))
   \<and> gold (gold_calls GameManager_new
        [SpendGold 20, AddGold 20 ''passive'', SpendGold 500, AddGold 10 ''enemy kill'']) = 110"
proof -
  have start: "gold GameManager_new = 100"
    by (simp add: GameManager_new_def)
  have fail: "spendGold 500 GameManager_new = (GameManager_new, False)"
    using spend_gold_atomic [of GameManager_new 500] by (simp add: start)
  have ok: "spendGold 20 GameManager_new = (GameManager_new\<lparr>gold := 80\<rparr>, True)"
    using spend_gold_atomic [of GameManager_new 20] by (simp add: start)
  have run: "\<forall>n. 0 \<le> gold (gold_calls GameManager_new
          (take n [SpendGold 20, AddGold 20 ''passive'', SpendGold 500,
                   AddGold 10 ''enemy kill'']))"
    using spend_gold_atomic [of GameManager_new 0
        "[SpendGold 20, AddGold 20 ''passive'', SpendGold 500, AddGold 10 ''enemy kill'']"]
    by (simp add: start)
  have total: "gold (gold_calls GameManager_new
        [SpendGold 20, AddGold 20 ''passive'', SpendGold 500, AddGold 10 ''enemy kill'']) = 110"
    by (simp add: GameManager_new_def spendGold_def addGold_def getDifficultyParameters_def
        Math_floor_def)
  from fail ok run total show ?thesis by simp
qed

text \<open>
  The claim as stated fails: \<^verbatim>\<open>addGold\<close> does not look at the sign of the amount. From
  the new ledger, spending 20 and then adding -150 leaves -70 gold.
\<close>

theorem negative_add_overdraws:
  "gold (gold_calls GameManager_new [SpendGold 20, AddGold (- 150) ''refund'']) = - 70"
  by (simp add: GameManager_new_def spendGold_def addGold_def)

section \<open>The expiry of an arrow\<close>








section \<open>Further facts\<close>

text \<open>
  The health of a base never goes below 0: from a health that is not negative, any
  \<^verbatim>\<open>takeDamage\<close>, whatever the amount, leaves a health that is not negative.
\<close>

theorem base_health_never_negative:
  assumes "0 \<le> base_health b"
  shows "0 \<le> base_health (fst (Base_takeDamage amount b sc))"
  using assms by (auto simp: Base_takeDamage_def Let_def split: option.splits)

theorem base_health_never_negative_witness:
  "0 \<le> base_health enemyBase_new
   \<and> 0 \<le> base_health (fst (Base_takeDamage (Some 1000) enemyBase_new GameScene_new))"
proof -
  have start: "0 \<le> base_health enemyBase_new"
    by (simp add: enemyBase_new_def)
  from start base_health_never_negative [OF start, of "Some 1000" GameScene_new]
  show ?thesis by simp
qed

text \<open>
  A base whose health is already at 0 calls the handler of its side on every further
  positive hit: the health stays at 0, the enemy base's handler runs once more and
  credits the base-destroy XP once more, the player base's handler runs once more.
\<close>

theorem destroyed_base_calls_handler_on_every_hit:
  assumes "base_health b \<le> 0" and "0 < amt"
  shows "base_health (fst (Base_takeDamage (Some amt) b sc)) = 0
         \<and> (\<not> isPlayerBase b \<longrightarrow>
              onEnemyBaseDestroyed_calls (snd (Base_takeDamage (Some amt) b sc)) =
                Suc (onEnemyBaseDestroyed_calls sc)
              \<and> xp (gameManager (snd (Base_takeDamage (Some amt) b sc))) =
                  xp (gameManager sc) + 100)
         \<and> (isPlayerBase b \<longrightarrow>
              onPlayerBaseDestroyed_calls (snd (Base_takeDamage (Some amt) b sc)) =
                Suc (onPlayerBaseDestroyed_calls sc))"
  using assms Math_round_nonneg [of amt]
  by (simp add: Base_takeDamage_def Let_def Base_onDestroyed_def onEnemyBaseDestroyed_def
      onPlayerBaseDestroyed_def addXP_def xpRewards_baseDestroy_def max_def)

theorem destroyed_base_calls_handler_on_every_hit_witness:
  "base_health (enemyBase_new\<lparr>base_health := 0\<rparr>) \<le> 0
   \<and> onEnemyBaseDestroyed_calls
       (snd (Base_takeDamage (Some 15) (enemyBase_new\<lparr>base_health := 0\<rparr>) GameScene_new)) = 1
   \<and> xp (gameManager
       (snd (Base_takeDamage (Some 15) (enemyBase_new\<lparr>base_health := 0\<rparr>) GameScene_new))) = 100"
proof -
  have dead: "base_health (enemyBase_new\<lparr>base_health := 0\<rparr>) \<le> 0"
    by simp
  have side: "\<not> isPlayerBase (enemyBase_new\<lparr>base_health := 0\<rparr>)"
    by (simp add: enemyBase_new_def)
  from dead side
    destroyed_base_calls_handler_on_every_hit [OF dead, of 15 GameScene_new]
  show ?thesis by (simp add: GameScene_new_def GameManager_new_def)
qed

text \<open>
  The cleanup never expires by age a sprite that carries no \<^verbatim>\<open>creationTime\<close>, as every
  sprite built by \<^verbatim>\<open>Arrow\<close> does: active and within the margin, it is kept whatever
  the time is.
\<close>

theorem cleanup_never_expires_by_age:
  assumes "sprite_active s" and "\<not> outOfBounds sc s" and "sprite_creationTime s = None"
  shows "cleanup_filter now sc s = (s, True)"
  using assms by (simp add: cleanup_filter_def)

theorem cleanup_never_expires_by_age_witness:
  "cleanup_filter 1000000 GameScene_new
     (arrow_sprite (fst (createFromShot GameScene_new 200 400
        \<lparr>shot_speedMultiplier = None, shot_isMaxPower = Some False,
         shot_baseDamage = Some 15, shot_powerLevel = Some 60,
         shot_damageMultiplier = Some 1\<rparr> 0)))
   = (arrow_sprite (fst (createFromShot GameScene_new 200 400
        \<lparr>shot_speedMultiplier = None, shot_isMaxPower = Some False,
         shot_baseDamage = Some 15, shot_powerLevel = Some 60,
         shot_damageMultiplier = Some 1\<rparr> 0)), True)"
proof -
  let ?s = "arrow_sprite (fst (createFromShot GameScene_new 200 400
        \<lparr>shot_speedMultiplier = None, shot_isMaxPower = Some False,
         shot_baseDamage = Some 15, shot_powerLevel = Some 60,
         shot_damageMultiplier = Some 1\<rparr> 0))"
  have s: "sprite_active ?s" "\<not> outOfBounds GameScene_new ?s" "sprite_creationTime ?s = None"
    by (simp_all add: createFromShot_def Arrow_new_def Let_def outOfBounds_def
        GameScene_new_def cleanup_margin_def)
  show ?thesis
    by (rule cleanup_never_expires_by_age [OF s])
qed

text \<open>
  \<^verbatim>\<open>Hero.takeDamage\<close> guards against re-entry: a dead hero ignores every further hit, so
  the death and its respawn timer happen once.
\<close>

theorem dead_hero_takes_no_damage:
  assumes "\<not> isAlive h"
  shows "Hero_takeDamage amount h = h"
  using assms by (simp add: Hero_takeDamage_def split: option.splits)

theorem dead_hero_takes_no_damage_witness:
  "\<not> isAlive (Hero_takeDamage (Some 250) (Hero_new 200 400))
   \<and> respawn_timers (Hero_takeDamage (Some 250) (Hero_new 200 400)) = 1
   \<and> Hero_takeDamage (Some 30) (Hero_takeDamage (Some 250) (Hero_new 200 400))
       = Hero_takeDamage (Some 250) (Hero_new 200 400)"
proof -
  have dead: "\<not> isAlive (Hero_takeDamage (Some 250) (Hero_new 200 400))"
    "respawn_timers (Hero_takeDamage (Some 250) (Hero_new 200 400)) = 1"
    by (simp_all add: Hero_takeDamage_def Hero_new_def Math_round_def Let_def)
  from dead dead_hero_takes_no_damage [OF dead(1), of "Some 30"]
  show ?thesis by simp
qed

end
